theory Spec2Isabelle
  imports Complex_Main "HOL-Library.Sublist"
begin

section \<open>Characters and character classes\<close>

text \<open>
  The backend (\<^verbatim>\<open>src/backend/app.py\<close>) parses invoice text with Python's \<^verbatim>\<open>re\<close> module.
  A text is modelled as a \<^typ>\<open>string\<close> whose characters are the code points 0 to 255
  (the Latin-1 range of a Python \<^verbatim>\<open>str\<close>); \<open>cp\<close> is Python's \<^verbatim>\<open>ord\<close>.
  The predicates below are the classes \<^verbatim>\<open>\d\<close>, \<^verbatim>\<open>\w\<close> and \<^verbatim>\<open>\s\<close> of a \<^verbatim>\<open>str\<close> pattern on
  that range, and \<open>lower\<close>/\<open>upper\<close> the case folding that \<^verbatim>\<open>re.I\<close> applies to the letters
  used in the patterns.
\<close>

definition cp :: "char \<Rightarrow> nat" where
  "cp c = of_char c"

definition is_digit :: "char \<Rightarrow> bool" where
  "is_digit c = (48 \<le> cp c \<and> cp c \<le> 57)"

definition is_alpha :: "char \<Rightarrow> bool" where
  "is_alpha c = (let n = cp c in
     (65 \<le> n \<and> n \<le> 90) \<or> (97 \<le> n \<and> n \<le> 122) \<or> n = 170 \<or> n = 181 \<or> n = 186 \<or>
     (192 \<le> n \<and> n \<le> 214) \<or> (216 \<le> n \<and> n \<le> 246) \<or> 248 \<le> n)"

definition is_numeric :: "char \<Rightarrow> bool" where
  "is_numeric c = (let n = cp c in
     (48 \<le> n \<and> n \<le> 57) \<or> n = 178 \<or> n = 179 \<or> n = 185 \<or> (188 \<le> n \<and> n \<le> 190))"

definition is_word :: "char \<Rightarrow> bool" where
  "is_word c = (is_alpha c \<or> is_numeric c \<or> c = CHR ''_'')"

definition is_space :: "char \<Rightarrow> bool" where
  "is_space c = (let n = cp c in
     (9 \<le> n \<and> n \<le> 13) \<or> (28 \<le> n \<and> n \<le> 32) \<or> n = 133 \<or> n = 160)"

definition lower :: "char \<Rightarrow> char" where
  "lower c = (if 65 \<le> cp c \<and> cp c \<le> 90 then char_of (cp c + 32) else c)"

definition upper :: "char \<Rightarrow> char" where
  "upper c = (if 97 \<le> cp c \<and> cp c \<le> 122 then char_of (cp c - 32) else c)"

text \<open>
  What one position of a pattern accepts: a literal, an escape class, a range, the dot
  (every character but the newline, as no \<^verbatim>\<open>re.S\<close> is given) or a bracketed set.
  The flag \<open>ic\<close> is \<^verbatim>\<open>re.I\<close>.
\<close>

datatype atom = Lit char | Digit | Word | Space | Range char char

datatype cls = One atom | Dot | OneOf "atom list"

fun atom_match :: "bool \<Rightarrow> atom \<Rightarrow> char \<Rightarrow> bool" where
  "atom_match ic (Lit a) c = (if ic then lower c = lower a else c = a)"
| "atom_match ic Digit c = is_digit c"
| "atom_match ic Word c = is_word c"
| "atom_match ic Space c = is_space c"
| "atom_match ic (Range lo hi) c =
     ((cp lo \<le> cp c \<and> cp c \<le> cp hi) \<or>
      (ic \<and> ((cp lo \<le> cp (lower c) \<and> cp (lower c) \<le> cp hi) \<or>
             (cp lo \<le> cp (upper c) \<and> cp (upper c) \<le> cp hi))))"

fun any_match :: "bool \<Rightarrow> atom list \<Rightarrow> char \<Rightarrow> bool" where
  "any_match ic [] c = False"
| "any_match ic (a # as) c = (atom_match ic a c \<or> any_match ic as c)"

fun cls_match :: "bool \<Rightarrow> cls \<Rightarrow> char \<Rightarrow> bool" where
  "cls_match ic (One a) c = atom_match ic a c"
| "cls_match ic Dot c = (c \<noteq> CHR 0x0A)"
| "cls_match ic (OneOf as) c = any_match ic as c"

section \<open>The backtracking matcher behind \<^verbatim>\<open>re.search\<close>\<close>

text \<open>
  The patterns of the parser use concatenation, alternation, groups, the optional
  \<^verbatim>\<open>?\<close>, and repetition of a single character class (\<^verbatim>\<open>+\<close>, \<^verbatim>\<open>{2}\<close>, \<^verbatim>\<open>{1,2}\<close>, and the lazy
  \<^verbatim>\<open>.*?\<close>). \<open>Rep k lo hi greedy\<close> repeats class \<open>k\<close> at least \<open>lo\<close> and at most \<open>hi\<close> times
  (\<open>None\<close>: unbounded). Patterns are given as syntax trees; parsing the pattern string
  is not modelled.

  \<open>ms r ic s g\<close> lists every way in which \<open>r\<close> matches at the start of \<open>s\<close>, as the
  text left over and the groups captured, in the order in which a backtracking matcher
  tries them. \<open>match_at\<close> is the outcome of one attempt at one start position: the groups
  of the first entry. \<^verbatim>\<open>re.search\<close> tries the start positions from left to right, the end
  of the text included, and returns the first outcome.
\<close>

datatype rx =
    Eps
  | Chr cls
  | Seq rx rx
  | Alt rx rx
  | Opt rx
  | Rep cls nat "nat option" bool
  | Grp nat rx

type_synonym caps = "(nat \<times> string) list"

fun spans :: "(char \<Rightarrow> bool) \<Rightarrow> nat option \<Rightarrow> string \<Rightarrow> string list" where
  "spans p hi [] = [[]]"
| "spans p hi (x # xs) =
     (x # xs) # (if hi = Some 0 \<or> \<not> p x then []
                 else spans p (map_option (\<lambda>n. n - 1) hi) xs)"

primrec ms :: "rx \<Rightarrow> bool \<Rightarrow> string \<Rightarrow> caps \<Rightarrow> (string \<times> caps) list" where
  "ms Eps ic s g = [(s, g)]"
| "ms (Chr k) ic s g =
     (case s of [] \<Rightarrow> [] | x # xs \<Rightarrow> if cls_match ic k x then [(xs, g)] else [])"
| "ms (Seq a b) ic s g = concat (map (\<lambda>(s', g'). ms b ic s' g') (ms a ic s g))"
| "ms (Alt a b) ic s g = ms a ic s g @ ms b ic s g"
| "ms (Opt a) ic s g = ms a ic s g @ [(s, g)]"
| "ms (Rep k lo hi greedy) ic s g =
     (let rs = drop lo (spans (cls_match ic k) hi s)
      in map (\<lambda>s'. (s', g)) (if greedy then rev rs else rs))"
| "ms (Grp n a) ic s g =
     map (\<lambda>(s', g'). (s', (n, take (length s - length s') s) # g')) (ms a ic s g)"

definition match_at :: "rx \<Rightarrow> bool \<Rightarrow> string \<Rightarrow> caps option" where
  "match_at r ic s = (case ms r ic s [] of [] \<Rightarrow> None | (s', g) # _ \<Rightarrow> Some g)"

fun search :: "rx \<Rightarrow> bool \<Rightarrow> string \<Rightarrow> caps option" where
  "search r ic [] = match_at r ic []"
| "search r ic (x # xs) =
     (case match_at r ic (x # xs) of Some g \<Rightarrow> Some g | None \<Rightarrow> search r ic xs)"

definition group :: "caps \<Rightarrow> nat \<Rightarrow> string" where
  "group g n = (case map_of g n of None \<Rightarrow> [] | Some s \<Rightarrow> s)"

fun seqs :: "rx list \<Rightarrow> rx" where
  "seqs [] = Eps"
| "seqs [r] = r"
| "seqs (r # rs) = Seq r (seqs rs)"

definition lits :: "string \<Rightarrow> rx list" where
  "lits s = map (\<lambda>c. Chr (One (Lit c))) s"

section \<open>The invoice text heuristic\<close>

text \<open>The number \<^verbatim>\<open>\d+(?:\.\d+)?\<close> that both the weight and the cost pattern capture.\<close>

definition number :: rx where
  "number = Seq (Rep (One Digit) 1 None True)
                (Opt (Seq (Chr (One (Lit CHR ''.''))) (Rep (One Digit) 1 None True)))"

text \<open>\<^verbatim>\<open>(20\d{2}[-/\.]\d{1,2})\<close>\<close>

definition period_rx :: rx where
  "period_rx = Grp 1 (seqs (lits ''20'' @
     [Rep (One Digit) 2 (Some 2) True,
      Chr (OneOf [Lit CHR ''-'', Lit CHR ''/'', Lit CHR ''.'']),
      Rep (One Digit) 1 (Some 2) True]))"

text \<open>\<^verbatim>\<open>(Invoice|Vendor)[:\s]+([A-Za-z ]+)\<close>\<close>

definition vendor_rx :: rx where
  "vendor_rx = seqs
     [Grp 1 (Alt (seqs (lits ''Invoice'')) (seqs (lits ''Vendor''))),
      Rep (OneOf [Lit CHR '':'', Space]) 1 None True,
      Grp 2 (Rep (OneOf [Range CHR ''A'' CHR ''Z'', Range CHR ''a'' CHR ''z'', Lit CHR '' ''])
                 1 None True)]"

text \<open>\<^verbatim>\<open>kind + r".*?(\d+(?:\.\d+)?)\s?(?:kg|tons?)"\<close>\<close>

definition kg_rx :: "rx list \<Rightarrow> rx" where
  "kg_rx kind = seqs (kind @
     [Rep Dot 0 None False, Grp 1 number, Opt (Chr (One Space)),
      Alt (seqs (lits ''kg'')) (seqs (lits ''ton'' @ [Opt (Chr (One (Lit CHR ''s'')))]))])"

text \<open>\<^verbatim>\<open>kind + r".*?\$?\s?(\d+(?:\.\d+)?)"\<close>\<close>

definition usd_rx :: "rx list \<Rightarrow> rx" where
  "usd_rx kind = seqs (kind @
     [Rep Dot 0 None False, Opt (Chr (One (Lit CHR ''$''))), Opt (Chr (One Space)),
      Grp 1 number])"

text \<open>The three category keywords: \<^verbatim>\<open>recycl\w+\<close>, \<^verbatim>\<open>landfill\<close>, \<^verbatim>\<open>compost\w+\<close>.\<close>

definition recycl_kind :: "rx list" where
  "recycl_kind = lits ''recycl'' @ [Rep (One Word) 1 None True]"

definition landfill_kind :: "rx list" where
  "landfill_kind = lits ''landfill''"

definition compost_kind :: "rx list" where
  "compost_kind = lits ''compost'' @ [Rep (One Word) 1 None True]"

text \<open>
  \<^verbatim>\<open>float\<close> applied to a captured number. A weight or cost is modelled by the exact decimal
  value of its numeral (a \<^typ>\<open>real\<close>); the rounding of Python's binary floats is not
  modelled.
\<close>

definition digits_val :: "string \<Rightarrow> nat" where
  "digits_val ds = foldl (\<lambda>a c. 10 * a + (cp c - 48)) 0 ds"

definition float_of :: "string \<Rightarrow> real" where
  "float_of s = (let i = takeWhile (\<lambda>c. c \<noteq> CHR ''.'') s; f = drop (length i + 1) s
                 in real (digits_val i) + real (digits_val f) / 10 ^ length f)"

definition strip :: "string \<Rightarrow> string" where
  "strip s = rev (dropWhile is_space (rev (dropWhile is_space s)))"

definition grab :: "string \<Rightarrow> rx list \<Rightarrow> real \<times> real" where
  "grab text kind =
     (let kg = search (kg_rx kind) True text;
          usd = search (usd_rx kind) True text
      in (case kg of Some g \<Rightarrow> float_of (group g 1) | None \<Rightarrow> 0,
          case usd of Some g \<Rightarrow> float_of (group g 1) | None \<Rightarrow> 0))"

record invoice_line =
  line_type :: string
  weight_kg :: real
  cost_usd :: real

record parsed =
  period :: string
  vendor :: string
  lines :: "invoice_line list"

text \<open>\<^verbatim>\<open>if rkg:\<close> tests a float for truth, which is \<open>rkg \<noteq> 0\<close>.\<close>

definition parse_invoice_text :: "string \<Rightarrow> parsed" where
  "parse_invoice_text text =
     (let period = search period_rx False text;
          vendor = search vendor_rx True text;
          (rkg, rusd) = grab text recycl_kind;
          (lkg, lusd) = grab text landfill_kind;
          (ckg, cusd) = grab text compost_kind;
          lines0 = [];
          lines1 = (if rkg \<noteq> 0
                    then lines0 @ [\<lparr>line_type = ''recycling'', weight_kg = rkg, cost_usd = rusd\<rparr>]
                    else lines0);
          lines2 = (if ckg \<noteq> 0
                    then lines1 @ [\<lparr>line_type = ''compost'', weight_kg = ckg, cost_usd = cusd\<rparr>]
                    else lines1);
          lines3 = (if lkg \<noteq> 0
                    then lines2 @ [\<lparr>line_type = ''landfill'', weight_kg = lkg, cost_usd = lusd\<rparr>]
                    else lines2)
      in \<lparr>period = (case period of Some g \<Rightarrow> group g 1 | None \<Rightarrow> ''2025-09''),
          vendor = (case vendor of Some g \<Rightarrow> strip (group g 2) | None \<Rightarrow> ''Unknown Hauler''),
          lines = lines3\<rparr>)"

section \<open>The KPI state and the four endpoints\<close>

record kpi_state =
  recycle_kg :: real
  compost_kg :: real
  landfill_kg :: real
  diversion_rate :: real

definition mock_kpis :: kpi_state where
  "mock_kpis = \<lparr>recycle_kg = 0, compost_kg = 0, landfill_kg = 0, diversion_rate = 0\<rparr>"

record waste_item =
  label :: string
  route :: string
  confidence :: real
  est_weight_kg :: real
  tip :: string

text \<open>
  The external services. Each call either returns or raises; what it does is a parameter
  of the model, so that every pattern of failures can be given.
\<close>

datatype dependency = Storage | Ocr | Vision | Warehouse | TextGeneration

datatype error = Failed dependency

record env =
  s3_put_object :: "string \<Rightarrow> error + unit"
  detect_document_text :: "string \<Rightarrow> error + string list"
  insert_waste_events :: "waste_item list \<Rightarrow> error + unit"
  insert_invoice_lines :: "string \<Rightarrow> string \<Rightarrow> invoice_line list \<Rightarrow> error + unit"
  WRITER_API_KEY :: string
  writer_chat :: "kpi_state \<Rightarrow> error + string"

text \<open>
  The summary is either the local template, which prints the rate as a percentage, or the
  text the service generated.
\<close>

datatype summary = Template real | Generated string

datatype response =
    ImageResponse bool "waste_item list"
  | InvoiceResponse bool parsed
  | KpiResponse kpi_state summary
  | ResetResponse bool string

text \<open>\<^verbatim>\<open>try: ... except Exception as e: print(...)\<close>: the outcome of the call is dropped.\<close>

definition try_except :: "error + unit \<Rightarrow> unit" where
  "try_except r = (case r of Inl e \<Rightarrow> () | Inr u \<Rightarrow> ())"

text \<open>The body of the loop over the items of an image (lines 192 to 200).\<close>

definition apply_item :: "kpi_state \<Rightarrow> waste_item \<Rightarrow> kpi_state" where
  "apply_item k item =
     (let weight = est_weight_kg item; route = route item
      in if route = ''recycle'' then k\<lparr>recycle_kg := recycle_kg k + weight\<rparr>
         else if route = ''compost'' then k\<lparr>compost_kg := compost_kg k + weight\<rparr>
         else if route = ''landfill'' then k\<lparr>landfill_kg := landfill_kg k + weight\<rparr>
         else k)"

text \<open>The body of the loop over the lines of an invoice (lines 233 to 241).\<close>

definition apply_line :: "kpi_state \<Rightarrow> invoice_line \<Rightarrow> kpi_state" where
  "apply_line k line =
     (let weight = weight_kg line; line_type = line_type line
      in if line_type = ''recycling'' then k\<lparr>recycle_kg := recycle_kg k + weight\<rparr>
         else if line_type = ''compost'' then k\<lparr>compost_kg := compost_kg k + weight\<rparr>
         else if line_type = ''landfill'' then k\<lparr>landfill_kg := landfill_kg k + weight\<rparr>
         else k)"

text \<open>The block "Calculate diversion rate" that both handlers run after their loop.\<close>

definition recompute_diversion :: "kpi_state \<Rightarrow> kpi_state" where
  "recompute_diversion k =
     (let total_waste = recycle_kg k + compost_kg k + landfill_kg k
      in if total_waste > 0
         then k\<lparr>diversion_rate := (recycle_kg k + compost_kg k) / total_waste\<rparr>
         else k\<lparr>diversion_rate := 0\<rparr>)"

definition mock_items :: "waste_item list" where
  "mock_items =
     [\<lparr>label = ''plastic_bottle'', route = ''recycle'', confidence = 0.95,
       est_weight_kg = 0.05, tip = ''Place plastic bottle in the recycle bin.''\<rparr>,
      \<lparr>label = ''aluminum_can'', route = ''recycle'', confidence = 0.88,
       est_weight_kg = 0.02, tip = ''Place aluminum can in the recycle bin.''\<rparr>,
      \<lparr>label = ''pizza_box_greasy'', route = ''landfill'', confidence = 0.92,
       est_weight_kg = 0.15, tip = ''Place greasy pizza box in the landfill bin.''\<rparr>]"

definition upload_image :: "env \<Rightarrow> string \<Rightarrow> kpi_state \<Rightarrow> (error + response) \<times> kpi_state" where
  "upload_image e img k =
     (let u = try_except (s3_put_object e img);
          items = mock_items;
          k = foldl apply_item k items;
          k = recompute_diversion k;
          u = try_except (insert_waste_events e items)
      in (Inr (ImageResponse True items), k))"

definition mock_text :: string where
  "mock_text = ''Recycling 15.2 kg $45'' @ [CHR 0x0A] @ ''Landfill 8.7 kg $32'' @ [CHR 0x0A] @
               ''Compost 12.1 kg $28'' @ [CHR 0x0A] @ ''Period 2025-01 Vendor GreenCity''"

definition upload_invoice :: "env \<Rightarrow> string \<Rightarrow> kpi_state \<Rightarrow> (error + response) \<times> kpi_state" where
  "upload_invoice e pdf k =
     (let u = try_except (s3_put_object e pdf);
          text = mock_text;
          parsed = parse_invoice_text text;
          k = foldl apply_line k (lines parsed);
          k = recompute_diversion k;
          u = try_except (insert_invoice_lines e (period parsed) (vendor parsed) (lines parsed))
      in (Inr (InvoiceResponse True parsed), k))"

definition writer_kpi_summary :: "env \<Rightarrow> kpi_state \<Rightarrow> error + summary" where
  "writer_kpi_summary e kpis =
     (if WRITER_API_KEY e = [] then Inr (Template (diversion_rate kpis * 100))
      else case writer_chat e kpis of
             Inl err \<Rightarrow> Inl err
           | Inr content \<Rightarrow> Inr (Generated (strip content)))"

definition kpis :: "env \<Rightarrow> kpi_state \<Rightarrow> (error + response) \<times> kpi_state" where
  "kpis e k =
     (let data = k
      in case writer_kpi_summary e data of
           Inl err \<Rightarrow> (Inl err, k)
         | Inr s \<Rightarrow> (Inr (KpiResponse data s), k))"

definition reset_kpis :: "kpi_state \<Rightarrow> (error + response) \<times> kpi_state" where
  "reset_kpis k =
     (Inr (ResetResponse True ''KPIs reset to zero''),
      \<lparr>recycle_kg = 0, compost_kg = 0, landfill_kg = 0, diversion_rate = 0\<rparr>)"

text \<open>
  The packaged copy of the backend (\<^verbatim>\<open>.aws-sam/build/ApiFunction/app.py\<close>) handles an
  invoice differently: the upload to storage and the insert into the warehouse are not
  guarded, the text comes from the OCR service, and a sample text of its own replaces it
  when that call fails. It keeps no KPI state.
\<close>

definition build_fallback_text :: string where
  "build_fallback_text = ''Recycling 520 kg $180'' @ [CHR 0x0A] @ ''Landfill 260 kg $210'' @
     [CHR 0x0A] @ ''Compost 140 kg $90'' @ [CHR 0x0A] @ ''Period 2025-09 Vendor GreenCity''"

fun join_lines :: "string list \<Rightarrow> string" where
  "join_lines [] = []"
| "join_lines [l] = l"
| "join_lines (l # ls) = l @ [CHR 0x0A] @ join_lines ls"

definition build_upload_invoice :: "env \<Rightarrow> string \<Rightarrow> error + response" where
  "build_upload_invoice e pdf =
     (case s3_put_object e pdf of
        Inl err \<Rightarrow> Inl err
      | Inr u \<Rightarrow>
          (let text = (case detect_document_text e pdf of
                         Inr ls \<Rightarrow> join_lines ls
                       | Inl err \<Rightarrow> build_fallback_text);
               parsed = parse_invoice_text text
           in case insert_invoice_lines e (period parsed) (vendor parsed) (lines parsed) of
                Inl err \<Rightarrow> Inl err
              | Inr u \<Rightarrow> Inr (InvoiceResponse True parsed)))"

section \<open>Properties stated by the specification\<close>

text \<open>
  The invariant of the KPI state as the specification words it: the rate is the diverted
  share of the total when the total is positive, and zero when the total is zero.
\<close>

definition diversion_invariant :: "kpi_state \<Rightarrow> bool" where
  "diversion_invariant k =
     (let d = recycle_kg k + compost_kg k + landfill_kg k
      in (d > 0 \<longrightarrow> diversion_rate k = (recycle_kg k + compost_kg k) / d) \<and>
         (d = 0 \<longrightarrow> diversion_rate k = 0))"

text \<open>An environment in which every external call raises, with an API key configured.\<close>

definition all_down :: env where
  "all_down = \<lparr>s3_put_object = (\<lambda>b. Inl (Failed Storage)),
               detect_document_text = (\<lambda>b. Inl (Failed Ocr)),
               insert_waste_events = (\<lambda>r. Inl (Failed Warehouse)),
               insert_invoice_lines = (\<lambda>p v l. Inl (Failed Warehouse)),
               WRITER_API_KEY = ''key'',
               writer_chat = (\<lambda>k. Inl (Failed TextGeneration))\<rparr>"

section \<open>The parser on the sample invoice\<close>

lemma mock_recycl_kg: "search (kg_rx recycl_kind) True mock_text = Some [(1, ''15.2'')]"
  by code_simp

lemma mock_recycl_usd: "search (usd_rx recycl_kind) True mock_text = Some [(1, ''15.2'')]"
  by code_simp

lemma mock_landfill_kg: "search (kg_rx landfill_kind) True mock_text = Some [(1, ''8.7'')]"
  by code_simp

lemma mock_landfill_usd: "search (usd_rx landfill_kind) True mock_text = Some [(1, ''8.7'')]"
  by code_simp

lemma mock_compost_kg: "search (kg_rx compost_kind) True mock_text = None"
  by code_simp

lemma mock_compost_usd: "search (usd_rx compost_kind) True mock_text = None"
  by code_simp

lemma mock_period: "search period_rx False mock_text = Some [(1, ''2025-01'')]"
  by code_simp

lemma mock_vendor: "search vendor_rx True mock_text = Some [(2, ''GreenCity''), (1, ''Vendor'')]"
  by code_simp

lemma float_of_15_2: "float_of ''15.2'' = 15.2"
  by (simp add: float_of_def digits_val_def cp_def)

lemma float_of_8_7: "float_of ''8.7'' = 8.7"
  by (simp add: float_of_def digits_val_def cp_def)

lemma strip_GreenCity: "strip ''GreenCity'' = ''GreenCity''"
  by (simp add: strip_def is_space_def cp_def)

lemma parse_mock_text: "parse_invoice_text mock_text =
   \<lparr>period = ''2025-01'', vendor = ''GreenCity'',
    lines = [\<lparr>line_type = ''recycling'', weight_kg = 15.2, cost_usd = 15.2\<rparr>,
             \<lparr>line_type = ''landfill'', weight_kg = 8.7, cost_usd = 8.7\<rparr>]\<rparr>"
  by (simp add: parse_invoice_text_def grab_def group_def mock_recycl_kg mock_recycl_usd
      mock_landfill_kg mock_landfill_usd mock_compost_kg mock_compost_usd mock_period
      mock_vendor float_of_15_2 float_of_8_7 strip_GreenCity)

text \<open>
  Claim C2. On the sample invoice text the parser is specified to return the lines
  recycling (15.2, 45), compost (12.1, 28), landfill (8.7, 32), period 2025-01 and vendor
  GreenCity. The code returns the period and the vendor, but only two lines, and each
  with its weight repeated as its cost: the cost pattern makes the dollar sign optional
  and so stops at the first number after the keyword, and \<^verbatim>\<open>compost\w+\<close> needs a word
  character after "Compost", where the sample has a space.
\<close>

theorem sample_invoice_lines:
  "period (parse_invoice_text mock_text) = ''2025-01'' \<and>
   vendor (parse_invoice_text mock_text) = ''GreenCity'' \<and>
   lines (parse_invoice_text mock_text) =
     [\<lparr>line_type = ''recycling'', weight_kg = 15.2, cost_usd = 15.2\<rparr>,
      \<lparr>line_type = ''landfill'', weight_kg = 8.7, cost_usd = 8.7\<rparr>] \<and>
   lines (parse_invoice_text mock_text) \<noteq>
     [\<lparr>line_type = ''recycling'', weight_kg = 15.2, cost_usd = 45\<rparr>,
      \<lparr>line_type = ''compost'', weight_kg = 12.1, cost_usd = 28\<rparr>,
      \<lparr>line_type = ''landfill'', weight_kg = 8.7, cost_usd = 32\<rparr>]"
  by (simp add: parse_mock_text)

section \<open>Which lines are emitted, and in which order\<close>

lemma line_types:
  "map line_type (lines (parse_invoice_text text)) =
     (if fst (grab text recycl_kind) \<noteq> 0 then [''recycling''] else []) @
     (if fst (grab text compost_kind) \<noteq> 0 then [''compost''] else []) @
     (if fst (grab text landfill_kind) \<noteq> 0 then [''landfill''] else [])"
  by (simp add: parse_invoice_text_def Let_def split: prod.splits)

lemma grab_no_weight: "search (kg_rx kind) True text = None \<Longrightarrow> fst (grab text kind) = 0"
  by (simp add: grab_def)

text \<open>
  Claim C6. A line of a category is emitted exactly when the weight extracted for that
  category is not zero; in particular, when no weight matches for a category (whether or
  not a cost does), no line of that category is emitted.
\<close>

theorem line_iff_weight_nonzero:
  "((''recycling'' \<in> set (map line_type (lines (parse_invoice_text text)))) =
      (fst (grab text recycl_kind) \<noteq> 0)) \<and>
   ((''compost'' \<in> set (map line_type (lines (parse_invoice_text text)))) =
      (fst (grab text compost_kind) \<noteq> 0)) \<and>
   ((''landfill'' \<in> set (map line_type (lines (parse_invoice_text text)))) =
      (fst (grab text landfill_kind) \<noteq> 0)) \<and>
   (search (kg_rx recycl_kind) True text = None \<longrightarrow>
      ''recycling'' \<notin> set (map line_type (lines (parse_invoice_text text)))) \<and>
   (search (kg_rx compost_kind) True text = None \<longrightarrow>
      ''compost'' \<notin> set (map line_type (lines (parse_invoice_text text)))) \<and>
   (search (kg_rx landfill_kind) True text = None \<longrightarrow>
      ''landfill'' \<notin> set (map line_type (lines (parse_invoice_text text))))"
  unfolding line_types by (auto dest: grab_no_weight)

text \<open>A text with a cost for recycling and no weight: the cost is found, no line is emitted.\<close>

theorem line_iff_weight_nonzero_witness:
  "search (usd_rx recycl_kind) True ''Recycling $45'' = Some [(1, ''45'')] \<and>
   search (kg_rx recycl_kind) True ''Recycling $45'' = None \<and>
   ''recycling'' \<notin> set (map line_type (lines (parse_invoice_text ''Recycling $45'')))"
proof -
  have usd: "search (usd_rx recycl_kind) True ''Recycling $45'' = Some [(1, ''45'')]"
    by code_simp
  have kg: "search (kg_rx recycl_kind) True ''Recycling $45'' = None"
    by code_simp
  show ?thesis
    using line_iff_weight_nonzero [of "''Recycling $45''"] usd kg
    by blast
qed

text \<open>
  Claim C7. The lines come out in the order recycling, compost, landfill, each at most
  once, whatever the text.
\<close>

theorem lines_in_fixed_order:
  "subseq (map line_type (lines (parse_invoice_text text)))
     [''recycling'', ''compost'', ''landfill'']"
  unfolding line_types by simp

section \<open>The KPI state\<close>

lemma recompute_diversion_invariant: "diversion_invariant (recompute_diversion k)"
  by (simp add: diversion_invariant_def recompute_diversion_def Let_def)

text \<open>
  Claim C5. Each operation that changes the KPI state (an image, an invoice, a reset)
  leaves it satisfying the invariant, from whatever state it starts and whatever the
  external services do.
\<close>

theorem mutations_establish_invariant:
  "diversion_invariant (snd (upload_image e img k)) \<and>
   diversion_invariant (snd (upload_invoice e pdf k)) \<and>
   diversion_invariant (snd (reset_kpis k))"
  by (simp add: upload_image_def upload_invoice_def reset_kpis_def Let_def
      recompute_diversion_invariant)
   (simp add: diversion_invariant_def)

theorem mutations_establish_invariant_witness:
  "recycle_kg (snd (upload_image all_down ''img'' mock_kpis)) +
   compost_kg (snd (upload_image all_down ''img'' mock_kpis)) +
   landfill_kg (snd (upload_image all_down ''img'' mock_kpis)) > 0 \<and>
   diversion_rate (snd (upload_image all_down ''img'' mock_kpis)) = 7 / 22 \<and>
   recycle_kg (snd (reset_kpis mock_kpis)) + compost_kg (snd (reset_kpis mock_kpis)) +
   landfill_kg (snd (reset_kpis mock_kpis)) = 0 \<and>
   diversion_rate (snd (reset_kpis mock_kpis)) = 0"
  using mutations_establish_invariant [of all_down "''img''" mock_kpis "''pdf''"]
  by (simp add: diversion_invariant_def upload_image_def reset_kpis_def Let_def
      recompute_diversion_def mock_items_def apply_item_def mock_kpis_def)

text \<open>
  Claim C9. An item whose route, or an invoice line whose type, is none of recycle,
  recycling, compost and landfill changes nothing in the KPI state; the loop bodies have
  no failing branch.
\<close>

theorem unknown_route_ignored:
  "route item \<notin> {''recycle'', ''recycling'', ''compost'', ''landfill''} \<Longrightarrow>
   line_type line \<notin> {''recycle'', ''recycling'', ''compost'', ''landfill''} \<Longrightarrow>
   apply_item k item = k \<and> apply_line k line = k"
  by (simp add: apply_item_def apply_line_def Let_def)

theorem unknown_route_ignored_witness:
  "apply_item mock_kpis \<lparr>label = ''battery'', route = ''hazardous'', confidence = 0.5,
                         est_weight_kg = 3, tip = ''none''\<rparr> = mock_kpis \<and>
   apply_line mock_kpis \<lparr>line_type = ''hazardous'', weight_kg = 3, cost_usd = 1\<rparr> = mock_kpis"
  using unknown_route_ignored [of
      "\<lparr>label = ''battery'', route = ''hazardous'', confidence = 0.5,
        est_weight_kg = 3, tip = ''none''\<rparr>"
      "\<lparr>line_type = ''hazardous'', weight_kg = 3, cost_usd = 1\<rparr>" mock_kpis]
  by simp

section \<open>Failures of the external services\<close>

text \<open>
  Claim C3. The handlers are specified to absorb every failure of an external service.
  The two uploads do; the KPI endpoint calls the text-generation service without a guard,
  so with an API key configured a failure of that call is the endpoint's result.
\<close>

theorem kpis_propagates_writer_failure:
  "fst (kpis all_down mock_kpis) = Inl (Failed TextGeneration)"
  by (simp add: kpis_def writer_kpi_summary_def all_down_def)

lemma uploads_and_reset_return_ok:
  "fst (upload_image e img k) = Inr (ImageResponse True mock_items) \<and>
   fst (upload_invoice e pdf k) = Inr (InvoiceResponse True (parse_invoice_text mock_text)) \<and>
   fst (reset_kpis k) = Inr (ResetResponse True ''KPIs reset to zero'')"
  by (simp add: upload_image_def upload_invoice_def reset_kpis_def Let_def)

end
